theory Spec2Isabelle
  imports Complex_Main "HOL-Library.List_Lexorder" "HOL-Library.Char_ord"
begin

section \<open>Strings\<close>

text \<open>
  Python text is modelled as \<^typ>\<open>string\<close>, one \<^typ>\<open>char\<close> per code point, which
  covers the code points below 256. In that range \<^verbatim>\<open>str.isspace\<close> (and the regular
  expression class \<^verbatim>\<open>\s\<close>) hold for the twelve characters below, and \<^verbatim>\<open>\d\<close> holds
  for the ten ASCII digits only.
\<close>

definition is_space :: "char \<Rightarrow> bool" where
  "is_space c = (c \<in> set [CHR 0x09, CHR 0x0A, CHR 0x0B, CHR 0x0C, CHR 0x0D,
                            CHR 0x1C, CHR 0x1D, CHR 0x1E, CHR 0x1F, CHR 0x20,
                            CHR 0x85, CHR 0xA0])"

definition is_digit :: "char \<Rightarrow> bool" where
  "is_digit c = (c \<in> set ''0123456789'')"

text \<open>\<^verbatim>\<open>s.startswith(p)\<close>, with the prefix as first argument.\<close>

fun starts_with :: "string \<Rightarrow> string \<Rightarrow> bool" where
  "starts_with [] s = True"
| "starts_with (p # ps) [] = False"
| "starts_with (p # ps) (c # cs) = (p = c \<and> starts_with ps cs)"

text \<open>\<^verbatim>\<open>p in s\<close> on strings, with the needle as first argument.\<close>

fun contains :: "string \<Rightarrow> string \<Rightarrow> bool" where
  "contains p [] = (p = [])"
| "contains p (c # cs) = (starts_with p (c # cs) \<or> contains p cs)"

text \<open>\<^verbatim>\<open>s.strip()\<close>.\<close>

definition strip :: "string \<Rightarrow> string" where
  "strip s = rev (dropWhile is_space (rev (dropWhile is_space s)))"

text \<open>\<^verbatim>\<open>s.replace(".pddl", "")\<close>: every non-overlapping occurrence, left to right.\<close>

fun remove_pddl :: "string \<Rightarrow> string" where
  "remove_pddl [] = []"
| "remove_pddl (c # cs) =
     (if starts_with ''.pddl'' (c # cs) then remove_pddl (drop 4 cs)
      else c # remove_pddl cs)"

section \<open>Paths (posixpath)\<close>

definition path_join :: "string \<Rightarrow> string \<Rightarrow> string" where
  "path_join a b =
     (if starts_with ''/'' b then b
      else if a = [] \<or> last a = CHR ''/'' then a @ b
      else a @ ''/'' @ b)"

definition basename :: "string \<Rightarrow> string" where
  "basename p = rev (takeWhile (\<lambda>c. c \<noteq> CHR ''/'') (rev p))"

definition dirname :: "string \<Rightarrow> string" where
  "dirname p =
     (let head = rev (dropWhile (\<lambda>c. c \<noteq> CHR ''/'') (rev p))
      in if head \<noteq> [] \<and> \<not> list_all (\<lambda>c. c = CHR ''/'') head
         then rev (dropWhile (\<lambda>c. c = CHR ''/'') (rev head))
         else head)"

section \<open>The operating system as seen by the script\<close>

text \<open>
  The script reaches the file system through five library calls. Each is a field of the
  environment. \<open>os_open p\<close> is the text that \<^verbatim>\<open>open(p, 'r')\<close> followed by
  \<^verbatim>\<open>f.read()\<close> returns, or \<open>None\<close> when opening or reading raises. \<open>os_read p n\<close>
  is what \<^verbatim>\<open>open(p, 'r')\<close> followed by \<^verbatim>\<open>f.read(n)\<close> returns, or \<open>None\<close> when
  that raises; the bounded read decodes only as much of the file as it needs, so it can
  succeed on a file whose complete read raises. \<open>os_exists\<close> and \<open>os_isfile\<close> are
  \<^verbatim>\<open>os.path.exists\<close> and \<^verbatim>\<open>os.path.isfile\<close>; \<open>os_glob\<close> is \<^verbatim>\<open>glob.glob\<close>, the
  matches in the order the library returns them.
\<close>

record os =
  os_open :: "string \<Rightarrow> string option"
  os_read :: "string \<Rightarrow> nat \<Rightarrow> string option"
  os_exists :: "string \<Rightarrow> bool"
  os_isfile :: "string \<Rightarrow> bool"
  os_glob :: "string \<Rightarrow> string list"

text \<open>
  \<^verbatim>\<open>f.read(n)\<close> on a path: the bounded read, which returns at most \<open>n\<close> characters.
  \<^verbatim>\<open>f.read()\<close> on a path: the complete read.
\<close>

definition read_prefix :: "os \<Rightarrow> string \<Rightarrow> nat \<Rightarrow> string option" where
  "read_prefix env p n = map_option (take n) (os_read env p n)"

definition read_all :: "os \<Rightarrow> string \<Rightarrow> string option" where
  "read_all env p = os_open env p"

section \<open>Extracting the declared domain name\<close>

text \<open>
  \<^verbatim>\<open>re.search(r'\(:domain\s+([^)]+)\)', content)\<close>, returning group 1 of the leftmost
  match. At a position that starts with \<^verbatim>\<open>(:domain\<close> the greedy \<^verbatim>\<open>\s+\<close> first takes the
  whole run of white space and then gives characters back one at a time; the greedy
  \<^verbatim>\<open>[^)]+\<close> takes everything up to the next closing parenthesis (a shorter choice leaves
  a character other than \<^verbatim>\<open>)\<close> where the pattern needs one, so it never matches).
\<close>

definition name_group :: "string \<Rightarrow> string option" where
  "name_group r =
     (let t = takeWhile (\<lambda>c. c \<noteq> CHR '')'') r
      in if t \<noteq> [] \<and> starts_with '')'' (drop (length t) r) then Some t else None)"

fun ws_split :: "nat \<Rightarrow> string \<Rightarrow> string option" where
  "ws_split 0 r = None"
| "ws_split (Suc k) r =
     (case name_group (drop (Suc k) r) of
        Some g \<Rightarrow> Some g
      | None \<Rightarrow> ws_split k r)"

definition match_domain_at :: "string \<Rightarrow> string option" where
  "match_domain_at s =
     (if starts_with ''(:domain'' s
      then (let r = drop 8 s in ws_split (length (takeWhile is_space r)) r)
      else None)"

fun search_domain :: "string \<Rightarrow> string option" where
  "search_domain [] = None"
| "search_domain (c # cs) =
     (case match_domain_at (c # cs) of
        Some g \<Rightarrow> Some g
      | None \<Rightarrow> search_domain cs)"

text \<open>
  The value of \<^verbatim>\<open>domain_name\<close> after the \<^verbatim>\<open>try\<close> block: \<open>None\<close> when the file cannot
  be read or nothing matches, the stripped group otherwise (possibly the empty string).
\<close>

definition read_domain_name_from_file :: "os \<Rightarrow> string \<Rightarrow> string option" where
  "read_domain_name_from_file env file_path =
     (case read_all env file_path of
        None \<Rightarrow> None
      | Some content \<Rightarrow>
          (case search_domain content of
             None \<Rightarrow> None
           | Some g \<Rightarrow> Some (strip g)))"

text \<open>Python truthiness of an optional string: \<^verbatim>\<open>None\<close> and \<^verbatim>\<open>""\<close> are false.\<close>

fun truthy :: "string option \<Rightarrow> bool" where
  "truthy None = False"
| "truthy (Some s) = (s \<noteq> [])"

section \<open>Domain resolution\<close>

text \<open>The loop over the name variants: the first \<^verbatim>\<open><variant>.pddl\<close> that exists.\<close>

fun try_variants :: "os \<Rightarrow> string \<Rightarrow> string list \<Rightarrow> string option" where
  "try_variants env problem_dir [] = None"
| "try_variants env problem_dir (variant # vs) =
     (let file_path = path_join problem_dir (variant @ ''.pddl'')
      in if os_exists env file_path then Some file_path
         else try_variants env problem_dir vs)"

text \<open>The loop over the patterns: the first match of the first pattern that has one.\<close>

fun try_patterns :: "os \<Rightarrow> string \<Rightarrow> string list \<Rightarrow> string option" where
  "try_patterns env dir [] = None"
| "try_patterns env dir (pattern # ps) =
     (case os_glob env (path_join dir pattern) of
        [] \<Rightarrow> try_patterns env dir ps
      | candidate # _ \<Rightarrow> Some candidate)"

text \<open>
  The structural scan: the first listed file other than the problem file that is a
  regular file, can be read, mentions \<^verbatim>\<open>:action\<close> and does not mention \<^verbatim>\<open>(:goal\<close>.
\<close>

fun scan_pddls :: "os \<Rightarrow> string \<Rightarrow> string list \<Rightarrow> string option" where
  "scan_pddls env problem_file [] = None"
| "scan_pddls env problem_file (pddl # rest) =
     (if pddl \<noteq> problem_file \<and> os_isfile env pddl
      then (case read_all env pddl of
              Some content \<Rightarrow>
                (if contains '':action'' content \<and> \<not> contains ''(:goal'' content
                 then Some pddl
                 else scan_pddls env problem_file rest)
            | None \<Rightarrow> scan_pddls env problem_file rest)
      else scan_pddls env problem_file rest)"

text \<open>
  The list \<^verbatim>\<open>variants\<close>: the declared name when there is one, then its other
  spelling when it is one of the two spellings of blocksworld.
\<close>

definition variants_of :: "string option \<Rightarrow> string list" where
  "variants_of domain_name =
     (if truthy domain_name then [the domain_name] else []) @
     (if domain_name = Some ''blocksworld'' then [''blockworld'']
      else if domain_name = Some ''blockworld'' then [''blocksworld'']
      else [])"

text \<open>The pattern list after the \<^verbatim>\<open>None\<close> entries are filtered out.\<close>

definition patterns_of :: "string option \<Rightarrow> string \<Rightarrow> string list" where
  "patterns_of domain_name problem_dir =
     filter (\<lambda>p. p \<noteq> [])
       (List.map_filter id
          [Some ''domain.pddl'',
           (if truthy domain_name then Some (the domain_name @ ''.pddl'') else None),
           Some ''*domain*.pddl'',
           Some ''*.domain.pddl'',
           Some (basename problem_dir @ ''.pddl'')])"

text \<open>
  \<^verbatim>\<open>find_domain_file_for_problem\<close>. Its first block reads the declared name with
  the statements of \<^verbatim>\<open>read_domain_name_from_file\<close>, written out once more in the
  source; then come the variants, the patterns in the problem's directory, the scan,
  and the same patterns in the parent directory. \<open>None\<close> is the source's
  \<^verbatim>\<open>return None\<close>.
\<close>

definition find_domain_file_for_problem :: "os \<Rightarrow> string \<Rightarrow> string option" where
  "find_domain_file_for_problem env problem_file =
     (let problem_dir = dirname problem_file;
          domain_name = read_domain_name_from_file env problem_file;
          variants = variants_of domain_name
      in case try_variants env problem_dir variants of
           Some file_path \<Rightarrow> Some file_path
         | None \<Rightarrow>
             (let patterns = patterns_of domain_name problem_dir
              in case try_patterns env problem_dir patterns of
                   Some candidate \<Rightarrow> Some candidate
                 | None \<Rightarrow>
                     (let all_pddls = os_glob env (path_join problem_dir ''*.pddl'')
                      in case scan_pddls env problem_file all_pddls of
                           Some pddl \<Rightarrow> Some pddl
                         | None \<Rightarrow>
                             (let parent_dir = dirname problem_dir
                              in try_patterns env parent_dir patterns))))"

section \<open>The corpus walker\<close>

datatype py_error = NameError string | TypeError | ValueError

text \<open>
  \<^verbatim>\<open>is_problem_file\<close>: the first 2000 characters must mention the three markers; any
  exception while reading gives \<^verbatim>\<open>False\<close>.
\<close>

definition is_problem_file :: "os \<Rightarrow> string \<Rightarrow> bool" where
  "is_problem_file env file_path =
     (case read_prefix env file_path 2000 of
        Some content \<Rightarrow>
          contains ''(:goal'' content \<and> contains ''(define'' content \<and>
          contains ''problem'' content
      | None \<Rightarrow> False)"

definition find_problem_files :: "os \<Rightarrow> string \<Rightarrow> string list" where
  "find_problem_files env directory =
     filter (is_problem_file env) (os_glob env (path_join directory ''*.pddl''))"

subsection \<open>Ordering the problem files\<close>

text \<open>
  \<^verbatim>\<open>problem_sort_key\<close> returns an \<^verbatim>\<open>int\<close> when the file name has a digit and the
  file name itself otherwise, so the keys of one directory can be of two types.
\<close>

datatype sort_key = KInt int | KStr string

definition first_number :: "string \<Rightarrow> string" where
  "first_number s = takeWhile is_digit (dropWhile (\<lambda>c. \<not> is_digit c) s)"

definition int_of_digits :: "string \<Rightarrow> int" where
  "int_of_digits ds = foldl (\<lambda>a c. 10 * a + (int (of_char c) - 48)) 0 ds"

definition problem_sort_key :: "string \<Rightarrow> sort_key" where
  "problem_sort_key path =
     (let filename = basename path; number = first_number filename
      in if number \<noteq> [] then KInt (int_of_digits number) else KStr filename)"

text \<open>Python's \<^verbatim>\<open><\<close> on strings: lexicographic on code points.\<close>

fun str_lt :: "string \<Rightarrow> string \<Rightarrow> bool" where
  "str_lt [] [] = False"
| "str_lt [] (b # bs) = True"
| "str_lt (a # as) [] = False"
| "str_lt (a # as) (b # bs) =
     (if a = b then str_lt as bs else (of_char a :: nat) < of_char b)"

text \<open>Python's \<^verbatim>\<open><\<close> on keys: an \<^verbatim>\<open>int\<close> and a \<^verbatim>\<open>str\<close> do not compare.\<close>

fun key_lt :: "sort_key \<Rightarrow> sort_key \<Rightarrow> py_error + bool" where
  "key_lt (KInt a) (KInt b) = Inr (a < b)"
| "key_lt (KStr a) (KStr b) = Inr (str_lt a b)"
| "key_lt (KInt a) (KStr b) = Inl TypeError"
| "key_lt (KStr a) (KInt b) = Inl TypeError"

text \<open>
  \<^verbatim>\<open>list.sort(key=problem_sort_key)\<close>: a stable sort that uses \<^verbatim>\<open><\<close> only, and that
  an exception raised by a comparison aborts. It is modelled as a stable insertion sort
  with the same comparison.
\<close>

fun insert_by_key :: "string \<Rightarrow> string list \<Rightarrow> py_error + string list" where
  "insert_by_key x [] = Inr [x]"
| "insert_by_key x (y # ys) =
     (case key_lt (problem_sort_key y) (problem_sort_key x) of
        Inl e \<Rightarrow> Inl e
      | Inr False \<Rightarrow> Inr (x # y # ys)
      | Inr True \<Rightarrow>
          (case insert_by_key x ys of
             Inl e \<Rightarrow> Inl e
           | Inr zs \<Rightarrow> Inr (y # zs)))"

fun sort_problems :: "string list \<Rightarrow> py_error + string list" where
  "sort_problems [] = Inr []"
| "sort_problems (x # xs) =
     (case sort_problems xs of
        Inl e \<Rightarrow> Inl e
      | Inr ys \<Rightarrow> insert_by_key x ys)"

text \<open>\<^verbatim>\<open>xs[:n]\<close>, where a negative \<^verbatim>\<open>n\<close> counts from the end.\<close>

definition slice_to :: "'a list \<Rightarrow> int \<Rightarrow> 'a list" where
  "slice_to xs n =
     (if 0 \<le> n then take (nat n) xs else take (length xs - nat (- n)) xs)"

text \<open>The problem files of one domain directory, in the order the walker visits them.\<close>

definition ordered_problems :: "os \<Rightarrow> string \<Rightarrow> int \<Rightarrow> py_error + string list" where
  "ordered_problems env domain_dir max_problems =
     (case sort_problems (find_problem_files env domain_dir) of
        Inl e \<Rightarrow> Inl e
      | Inr problem_files \<Rightarrow> Inr (slice_to problem_files max_problems))"

subsection \<open>Pairing each problem with its domain\<close>

datatype step = Skipped "string list" | Resolved string

text \<open>How an f-string prints an optional string.\<close>

fun show_opt :: "string option \<Rightarrow> string" where
  "show_opt None = ''None''"
| "show_opt (Some s) = s"

text \<open>
  The top of the loop body in \<^verbatim>\<open>main\<close>, up to its \<^verbatim>\<open>continue\<close>. The condition
  \<^verbatim>\<open>domain_name == "blocksworld" and os.path.exists(os.path.join(problem_dir, ...))\<close>
  evaluates its second operand only when the first is true, and \<^verbatim>\<open>problem_dir\<close> is
  bound neither in \<^verbatim>\<open>main\<close> nor at module level, so evaluating it raises
  \<^verbatim>\<open>NameError\<close>. \<open>Skipped\<close> carries the two diagnostic lines printed.
\<close>

definition resolve_step :: "os \<Rightarrow> string \<Rightarrow> py_error + step" where
  "resolve_step env problem_file =
     (let domain_file = find_domain_file_for_problem env problem_file
      in if \<not> truthy domain_file
         then (let domain_name = read_domain_name_from_file env problem_file
               in if domain_name = Some ''blocksworld''
                  then Inl (NameError ''problem_dir'')
                  else Inr (Skipped
                         [''  Warning: Could not find domain file for '' @ basename problem_file,
                          ''  Problem requires domain: '' @
                            show_opt (read_domain_name_from_file env problem_file)]))
         else Inr (Resolved (the domain_file)))"

text \<open>The loop over the problem files: an exception leaves the loop and the program.\<close>

fun walk_problems :: "os \<Rightarrow> string list \<Rightarrow> py_error + (string \<times> step) list" where
  "walk_problems env [] = Inr []"
| "walk_problems env (problem_file # rest) =
     (case resolve_step env problem_file of
        Inl e \<Rightarrow> Inl e
      | Inr s \<Rightarrow>
          (case walk_problems env rest of
             Inl e \<Rightarrow> Inl e
           | Inr steps \<Rightarrow> Inr ((problem_file, s) # steps)))"

text \<open>
  The body of the loop over the domain directories, as far as the pairing: a directory
  without problem files is passed over, otherwise its problem files are sorted, cut to
  \<^verbatim>\<open>max_problems\<close> and walked.
\<close>

definition walk_domain_dir ::
  "os \<Rightarrow> string \<Rightarrow> int \<Rightarrow> py_error + (string \<times> step) list" where
  "walk_domain_dir env domain_dir max_problems =
     (if find_problem_files env domain_dir = [] then Inr []
      else (case ordered_problems env domain_dir max_problems of
              Inl e \<Rightarrow> Inl e
            | Inr problem_files \<Rightarrow> walk_problems env problem_files))"

section \<open>A concrete file system\<close>

text \<open>
  A small file system for examples: a list of paths with what is there, in the order a
  directory listing returns them. \<open>File (Some text)\<close> is a file with that text,
  \<open>File None\<close> a file that cannot be read at all, and \<open>Broken text\<close> a file that begins
  with \<open>text\<close> and goes on with bytes that do not decode: its complete read raises, and
  a bounded read, which loads the file in blocks of 8192, succeeds when the characters
  it asks for and one more block lie within \<open>text\<close>. Its
  \<open>disk_glob\<close> follows \<^verbatim>\<open>glob.glob\<close> for the patterns the script builds from plain
  directory names: a pattern without wildcard matches itself when it exists; otherwise
  the entries of the pattern's directory are filtered by name, where \<^verbatim>\<open>*\<close> stands for
  any text, \<^verbatim>\<open>?\<close> for one character, and names with a leading dot match only patterns
  with a leading dot.
\<close>

datatype node = Dir | File "string option" | Broken string

type_synonym disk = "(string \<times> node) list"

definition has_magic :: "string \<Rightarrow> bool" where
  "has_magic s = list_ex (\<lambda>c. c \<in> set ''*?['') s"

fun fnmatch :: "string \<Rightarrow> string \<Rightarrow> bool" where
  "fnmatch [] n = (n = [])"
| "fnmatch (p # ps) [] = (p = CHR ''*'' \<and> fnmatch ps [])"
| "fnmatch (p # ps) (c # cs) =
     (if p = CHR ''*'' then fnmatch ps (c # cs) \<or> fnmatch (p # ps) cs
      else (p = CHR ''?'' \<or> p = c) \<and> fnmatch ps cs)"

definition name_visible :: "string \<Rightarrow> string \<Rightarrow> bool" where
  "name_visible pattern name =
     (if starts_with ''.'' name then starts_with ''.'' pattern else True)"

definition disk_glob :: "disk \<Rightarrow> string \<Rightarrow> string list" where
  "disk_glob d pathname =
     (if \<not> has_magic pathname
      then (if pathname \<in> set (map fst d) then [pathname] else [])
      else map (\<lambda>p. path_join (dirname pathname) (basename p))
             (filter (\<lambda>p. dirname p = dirname pathname \<and>
                           name_visible (basename pathname) (basename p) \<and>
                           fnmatch (basename pathname) (basename p))
                (map fst d)))"

definition disk_open :: "disk \<Rightarrow> string \<Rightarrow> string option" where
  "disk_open d p = (case map_of d p of Some (File (Some text)) \<Rightarrow> Some text | _ \<Rightarrow> None)"

definition disk_read :: "disk \<Rightarrow> string \<Rightarrow> nat \<Rightarrow> string option" where
  "disk_read d p n =
     (case map_of d p of
        Some (File (Some text)) \<Rightarrow> Some (take n text)
      | Some (Broken text) \<Rightarrow>
          (if n + 8192 \<le> length text then Some (take n text) else None)
      | _ \<Rightarrow> None)"

definition disk_isfile :: "disk \<Rightarrow> string \<Rightarrow> bool" where
  "disk_isfile d p =
     (case map_of d p of Some (File _) \<Rightarrow> True | Some (Broken _) \<Rightarrow> True | _ \<Rightarrow> False)"

definition disk_os :: "disk \<Rightarrow> os" where
  "disk_os d =
     \<lparr>os_open = disk_open d,
      os_read = disk_read d,
      os_exists = (\<lambda>p. p \<in> set (map fst d)),
      os_isfile = disk_isfile d,
      os_glob = disk_glob d\<rparr>"

section \<open>The benchmark runner\<close>

text \<open>
  A record is a Python \<^verbatim>\<open>dict\<close>: its keys in insertion order, each with a value.
  Assigning to a key that is present keeps the key's position.
\<close>

datatype pyval = VStr string | VBool bool | VFloat real | VInt int

type_synonym pydict = "(string \<times> pyval) list"

fun dict_set :: "string \<Rightarrow> pyval \<Rightarrow> pydict \<Rightarrow> pydict" where
  "dict_set k v [] = [(k, v)]"
| "dict_set k v ((k', v') # rest) =
     (if k = k' then (k, v) # rest else (k', v') # dict_set k v rest)"

text \<open>\<^verbatim>\<open>s or other\<close> for an optional string.\<close>

definition str_or :: "string option \<Rightarrow> string \<Rightarrow> string" where
  "str_or s other = (if truthy s then the s else other)"

text \<open>
  \<^verbatim>\<open>re.search(r"(\d+) Nodes expanded", out)\<close> and
  \<^verbatim>\<open>re.search(r"Plan length: (\d+)", out)\<close>, returning group 1 of the leftmost match.
  The greedy \<^verbatim>\<open>\d+\<close> takes the whole run of digits; in the first pattern a shorter
  choice leaves a digit where the pattern needs a space.
\<close>

definition match_nodes_at :: "string \<Rightarrow> string option" where
  "match_nodes_at s =
     (let ds = takeWhile is_digit s
      in if ds \<noteq> [] \<and> starts_with '' Nodes expanded'' (drop (length ds) s)
         then Some ds else None)"

fun search_nodes :: "string \<Rightarrow> string option" where
  "search_nodes [] = None"
| "search_nodes (c # cs) =
     (case match_nodes_at (c # cs) of
        Some ds \<Rightarrow> Some ds
      | None \<Rightarrow> search_nodes cs)"

definition match_length_at :: "string \<Rightarrow> string option" where
  "match_length_at s =
     (if starts_with ''Plan length: '' s
      then (let ds = takeWhile is_digit (drop 13 s)
            in if ds \<noteq> [] then Some ds else None)
      else None)"

fun search_length :: "string \<Rightarrow> string option" where
  "search_length [] = None"
| "search_length (c # cs) =
     (case match_length_at (c # cs) of
        Some ds \<Rightarrow> Some ds
      | None \<Rightarrow> search_length cs)"

text \<open>
  What one call of \<^verbatim>\<open>run_benchmark\<close> meets outside the script: the outcome of
  \<^verbatim>\<open>subprocess.run\<close> for the command and timeout (completion with its standard output
  and error text, \<^verbatim>\<open>TimeoutExpired\<close>, or another exception with its description), the
  reading of \<^verbatim>\<open>time.time()\<close> before the call and the one after it (in the body or in
  the handler that the outcome reaches), an exception that \<^verbatim>\<open>int\<close> or \<^verbatim>\<open>print\<close>
  may raise inside the \<^verbatim>\<open>try\<close> block after completion, and the reading of the clock
  in the handler which that exception reaches.
\<close>

datatype proc_outcome = Completed string string | TimeoutExpired | Raised string

record run_env =
  subprocess_run :: "string list \<Rightarrow> int \<Rightarrow> proc_outcome"
  start_time :: real
  end_time :: real
  late_exception :: "string option"
  handler_time :: real

definition run_benchmark ::
  "run_env \<Rightarrow> string \<Rightarrow> string \<Rightarrow> string option \<Rightarrow> string option \<Rightarrow> int \<Rightarrow> pydict" where
  "run_benchmark env domain_file problem_file search heuristic timeout =
     (let cmd = [''python'', ''-m'', ''pyperplan''] @
                (if truthy search then [''--search'', the search] else []) @
                (if truthy heuristic then [''--heuristic'', the heuristic] else []) @
                [domain_file, problem_file]
      in case subprocess_run env cmd timeout of
           Completed out err \<Rightarrow>
             (let elapsed = end_time env - start_time env;
                  stats = [(''domain'', VStr (remove_pddl (basename domain_file))),
                           (''problem'', VStr (remove_pddl (basename problem_file))),
                           (''search'', VStr (str_or search ''breadth_first_search'')),
                           (''heuristic'', VStr (str_or heuristic ''None'')),
                           (''success'', VBool (contains ''Goal reached'' out)),
                           (''runtime'', VFloat elapsed),
                           (''expanded_nodes'', VInt 0),
                           (''plan_length'', VInt 0)];
                  stats = (case search_nodes out of
                             Some ds \<Rightarrow> dict_set ''expanded_nodes'' (VInt (int_of_digits ds)) stats
                           | None \<Rightarrow> stats);
                  stats = (case search_length out of
                             Some ds \<Rightarrow> dict_set ''plan_length'' (VInt (int_of_digits ds)) stats
                           | None \<Rightarrow> stats)
              in case late_exception env of
                   None \<Rightarrow> stats
                 | Some e \<Rightarrow>
                     [(''domain'', VStr (remove_pddl (basename domain_file))),
                      (''problem'', VStr (remove_pddl (basename problem_file))),
                      (''search'', VStr (str_or search ''breadth_first_search'')),
                      (''heuristic'', VStr (str_or heuristic ''None'')),
                      (''success'', VBool False),
                      (''runtime'', VFloat (handler_time env - start_time env)),
                      (''expanded_nodes'', VStr (''error: '' @ e)),
                      (''plan_length'', VStr (''error: '' @ e))])
         | TimeoutExpired \<Rightarrow>
             (let elapsed = end_time env - start_time env
              in [(''domain'', VStr (remove_pddl (basename domain_file))),
                  (''problem'', VStr (remove_pddl (basename problem_file))),
                  (''search'', VStr (str_or search ''breadth_first_search'')),
                  (''heuristic'', VStr (str_or heuristic ''None'')),
                  (''success'', VBool False),
                  (''runtime'', VFloat elapsed),
                  (''expanded_nodes'', VStr ''timeout''),
                  (''plan_length'', VStr ''timeout'')])
         | Raised e \<Rightarrow>
             [(''domain'', VStr (remove_pddl (basename domain_file))),
              (''problem'', VStr (remove_pddl (basename problem_file))),
              (''search'', VStr (str_or search ''breadth_first_search'')),
              (''heuristic'', VStr (str_or heuristic ''None'')),
              (''success'', VBool False),
              (''runtime'', VFloat (end_time env - start_time env)),
              (''expanded_nodes'', VStr (''error: '' @ e)),
              (''plan_length'', VStr (''error: '' @ e))])"




section \<open>The result sink\<close>

text \<open>
  \<^verbatim>\<open>csv.DictWriter(f, fieldnames=results[0].keys())\<close> with its defaults: a key of a row
  that is not a field name raises \<^verbatim>\<open>ValueError\<close>, a field name that the row lacks is
  written as the empty string. \<^verbatim>\<open>writerows\<close> converts and writes one row after the
  other, so the rows before a failing one are in the file. A cell is kept as the value
  it was made from.
\<close>

definition dict_to_list :: "string list \<Rightarrow> pydict \<Rightarrow> py_error + pyval list" where
  "dict_to_list fieldnames rowdict =
     (if list_ex (\<lambda>k. k \<notin> set fieldnames) (map fst rowdict) then Inl ValueError
      else Inr (map (\<lambda>key. case map_of rowdict key of Some v \<Rightarrow> v | None \<Rightarrow> VStr [])
                  fieldnames))"

fun writerows :: "string list \<Rightarrow> pydict list \<Rightarrow> pyval list list \<times> py_error option" where
  "writerows fieldnames [] = ([], None)"
| "writerows fieldnames (rowdict # rest) =
     (case dict_to_list fieldnames rowdict of
        Inl e \<Rightarrow> ([], Some e)
      | Inr row \<Rightarrow>
          (case writerows fieldnames rest of
             (rows, outcome) \<Rightarrow> (row # rows, outcome)))"

text \<open>
  The end of \<^verbatim>\<open>main\<close>: nothing is written for an empty result list; otherwise the
  header and the rows written, and the exception that ended the writing, if any.
\<close>

definition save_results :: "pydict list \<Rightarrow> (pyval list list \<times> py_error option) option" where
  "save_results results =
     (case results of
        [] \<Rightarrow> None
      | first # _ \<Rightarrow>
          (let fieldnames = map fst first
           in case writerows fieldnames results of
                (rows, outcome) \<Rightarrow> Some (map VStr fieldnames # rows, outcome)))"

section \<open>Notions used to state the properties\<close>

text \<open>A text occurs in another one.\<close>

definition occurs_in :: "string \<Rightarrow> string \<Rightarrow> bool" where
  "occurs_in m s = (\<exists>a b. s = a @ m @ b)"

text \<open>
  The patterns of the resolver, for what it read as the declared name and for the
  directory of the problem: five when a non-empty name was read, four otherwise.
\<close>

definition resolver_patterns :: "string option \<Rightarrow> string \<Rightarrow> string list" where
  "resolver_patterns domain_name problem_dir =
     [''domain.pddl''] @
     (if truthy domain_name then [the domain_name @ ''.pddl''] else []) @
     [''*domain*.pddl'', ''*.domain.pddl'', basename problem_dir @ ''.pddl'']"

text \<open>
  The first pattern of a list that has a match in a directory, with the first of its
  matches.
\<close>

definition first_match :: "os \<Rightarrow> string \<Rightarrow> string list \<Rightarrow> string option" where
  "first_match env dir patterns =
     (case filter (\<lambda>p. os_glob env (path_join dir p) \<noteq> []) patterns of
        [] \<Rightarrow> None
      | p # _ \<Rightarrow> Some (hd (os_glob env (path_join dir p))))"

text \<open>A path whose file name has a digit, and the number of its first run of digits.\<close>

definition has_number :: "string \<Rightarrow> bool" where
  "has_number path = (first_number (basename path) \<noteq> [])"

definition number_key :: "string \<Rightarrow> int" where
  "number_key path = int_of_digits (first_number (basename path))"

text \<open>The eight fields of a record of the runner, in order.\<close>

definition run_fields :: "string list" where
  "run_fields = [''domain'', ''problem'', ''search'', ''heuristic'', ''success'', ''runtime'',
                 ''expanded_nodes'', ''plan_length'']"

text \<open>The row written for a record whose keys are all field names.\<close>

definition row_of :: "string list \<Rightarrow> pydict \<Rightarrow> pyval list" where
  "row_of fieldnames r =
     map (\<lambda>key. case map_of r key of Some v \<Rightarrow> v | None \<Rightarrow> VStr []) fieldnames"

section \<open>Example inputs\<close>

text \<open>A directory with two problems and no domain file; the first declares blocksworld.\<close>

definition disk_unresolved :: disk where
  "disk_unresolved =
     [(''/bench'', Dir),
      (''/bench/blocks'', Dir),
      (''/bench/blocks/pb1.pddl'',
         File (Some ''(define (problem p1) (:domain blocksworld) (:goal g))'')),
      (''/bench/blocks/pb2.pddl'',
         File (Some ''(define (problem p2) (:domain gripper) (:goal g))''))]"

text \<open>A directory with its domain file and two problems, one without a digit in its name.\<close>

definition disk_mixed :: disk where
  "disk_mixed =
     [(''/bench'', Dir),
      (''/bench/grid'', Dir),
      (''/bench/grid/domain.pddl'', File (Some ''(define (domain grid) (:action move))'')),
      (''/bench/grid/pb.pddl'',
         File (Some ''(define (problem p) (:domain grid) (:goal g))'')),
      (''/bench/grid/pb1.pddl'',
         File (Some ''(define (problem p1) (:domain grid) (:goal g))''))]"

text \<open>A problem next to the file named after its declared domain and to a \<^verbatim>\<open>domain.pddl\<close>.\<close>

definition disk_declared :: disk where
  "disk_declared =
     [(''/bench'', Dir),
      (''/bench/grip'', Dir),
      (''/bench/grip/domain.pddl'', File (Some ''(define (domain other) (:action a))'')),
      (''/bench/grip/gripper.pddl'', File (Some ''(define (domain gripper) (:action pick))'')),
      (''/bench/grip/pb1.pddl'',
         File (Some ''(define (problem p1) (:domain gripper) (:goal g))''))]"



text \<open>
  A problem that declares blocksworld, alone in its directory, with
  \<^verbatim>\<open>blockworld.pddl\<close> one level up.
\<close>

definition disk_parent_synonym :: disk where
  "disk_parent_synonym =
     [(''/c'', Dir),
      (''/c/blockworld.pddl'', File (Some ''(define (domain blockworld) (:action a))'')),
      (''/c/d'', Dir),
      (''/c/d/pb1.pddl'',
         File (Some ''(define (problem p1) (:domain blocksworld) (:goal g))''))]"

text \<open>
  A problem alone in its directory; one level up lie two files that match
  \<^verbatim>\<open>*domain*.pddl\<close>, listed in this order, and a file named after the problem's
  directory.
\<close>

definition disk_parent_order :: disk where
  "disk_parent_order =
     [(''/c'', Dir),
      (''/c/zdomain1.pddl'', File (Some ''(define (domain z) (:action a))'')),
      (''/c/adomain2.pddl'', File (Some ''(define (domain a) (:action a))'')),
      (''/c/d.pddl'', File (Some ''(define (domain d) (:action a))'')),
      (''/c/d'', Dir),
      (''/c/d/pb1.pddl'',
         File (Some ''(define (problem p1) (:domain gripper) (:goal g))''))]"

text \<open>A problem without a declaration, alone in its directory, with files one level up.\<close>

definition disk_parent_undeclared :: disk where
  "disk_parent_undeclared =
     [(''/c'', Dir),
      (''/c/d.pddl'', File (Some ''(define (domain d) (:action a))'')),
      (''/c/domain.pddl'', File (Some ''(define (domain e) (:action a))'')),
      (''/c/d'', Dir),
      (''/c/d/pb1.pddl'', File (Some ''(define (problem p1) (:goal g))''))]"

text \<open>
  A problem that declares blocksworld, alone in a directory named blockworld, with
  \<^verbatim>\<open>blockworld.pddl\<close> one level up.
\<close>

definition disk_parent_dirname :: disk where
  "disk_parent_dirname =
     [(''/c'', Dir),
      (''/c/blockworld.pddl'', File (Some ''(define (domain blockworld) (:action a))'')),
      (''/c/blockworld'', Dir),
      (''/c/blockworld/pb1.pddl'',
         File (Some ''(define (problem p1) (:domain blocksworld) (:goal g))''))]"

text \<open>
  A problem whose text has a comment with an older declaration before its own
  declaration of gripper, next to \<^verbatim>\<open>gripper.pddl\<close> and \<^verbatim>\<open>domain.pddl\<close>.
\<close>

definition disk_comment :: disk where
  "disk_comment =
     [(''/bench'', Dir),
      (''/bench/grip'', Dir),
      (''/bench/grip/domain.pddl'', File (Some ''(define (domain other) (:action a))'')),
      (''/bench/grip/gripper.pddl'', File (Some ''(define (domain gripper) (:action pick))'')),
      (''/bench/grip/pb1.pddl'',
         File (Some (''; was (:domain old)'' @ [CHR 0x0A] @
                     ''(define (problem p1) (:domain gripper) (:goal g))'')))]"

text \<open>
  A problem file of more than 20000 characters that decode, followed by bytes that do
  not.
\<close>

definition disk_broken :: disk where
  "disk_broken =
     [(''/bench'', Dir),
      (''/bench/grip'', Dir),
      (''/bench/grip/pb1.pddl'',
         Broken (''(define (problem p1) (:domain gripper) (:goal g))'' @
                 replicate 20000 (CHR '' '')))]"

text \<open>
  A problem file whose name contains \<^verbatim>\<open>domain\<close>, and one named after its directory;
  neither has a domain file.
\<close>

definition disk_named_domain :: disk where
  "disk_named_domain =
     [(''/bench'', Dir),
      (''/bench/blocks'', Dir),
      (''/bench/blocks/mydomain-p01.pddl'',
         File (Some ''(define (problem p1) (:domain blocksworld) (:goal g))''))]"

definition disk_named_dir :: disk where
  "disk_named_dir =
     [(''/bench'', Dir),
      (''/bench/p01'', Dir),
      (''/bench/p01/p01.pddl'',
         File (Some ''(define (problem p1) (:domain blocksworld) (:goal g))''))]"



text \<open>Records of three shapes: four fields, one of them missing, one more.\<close>

definition rec_full :: pydict where
  "rec_full = [(''domain'', VStr ''grid''), (''problem'', VStr ''pb1''),
               (''success'', VBool True), (''plan_length'', VInt 7)]"

definition rec_short :: pydict where
  "rec_short = [(''domain'', VStr ''grid''), (''problem'', VStr ''pb2''),
                (''success'', VBool False)]"

definition rec_extra :: pydict where
  "rec_extra = [(''domain'', VStr ''grid''), (''problem'', VStr ''pb3''),
                (''success'', VBool True), (''plan_length'', VInt 1), (''note'', VStr ''x'')]"

section \<open>Properties of the domain resolver\<close>

lemma try_variants_None:
  "try_variants env dir vs = None \<longleftrightarrow>
     list_all (\<lambda>v. \<not> os_exists env (path_join dir (v @ ''.pddl''))) vs"
  by (induction vs) (auto simp: Let_def)

lemma try_patterns_first_match: "try_patterns env dir ps = first_match env dir ps"
  by (induction ps) (auto simp: first_match_def split: list.splits)

lemma first_match_None:
  "first_match env dir ps = None \<longleftrightarrow> list_all (\<lambda>p. os_glob env (path_join dir p) = []) ps"
  by (induction ps) (auto simp: first_match_def split: list.splits)

lemma patterns_of_eq: "patterns_of domain_name dir = resolver_patterns domain_name dir"
  by (cases domain_name)
     (simp_all add: patterns_of_def resolver_patterns_def)

text \<open>
  The declaration as it stands in a problem file: some white space and the name \<open>X\<close>
  between \<^verbatim>\<open>(:domain\<close> and the closing parenthesis, with no \<^verbatim>\<open>(:domain\<close> starting
  earlier in the text. The script reads \<open>X\<close> from it.
\<close>

lemma starts_with_append:
  "length p \<le> length x \<Longrightarrow> starts_with p (x @ y) = starts_with p x"
  by (induction p x rule: starts_with.induct) auto

lemma takeWhile_name:
  "CHR '')'' \<notin> set X \<Longrightarrow> takeWhile (\<lambda>c. c \<noteq> CHR '')'') (X @ '')'' @ post) = X"
  by (induction X) auto

lemma name_group_name:
  "X \<noteq> [] \<Longrightarrow> CHR '')'' \<notin> set X \<Longrightarrow> name_group (X @ '')'' @ post) = Some X"
  unfolding name_group_def Let_def takeWhile_name by simp

lemma match_domain_at_declaration:
  assumes "ws \<noteq> []" "list_all is_space ws" "X \<noteq> []" "\<not> is_space (hd X)" "CHR '')'' \<notin> set X"
  shows "match_domain_at (''(:domain'' @ ws @ X @ '')'' @ post) = Some X"
proof -
  from assms(3,4) have "takeWhile is_space (X @ '')'' @ post) = []"
    by (cases X) simp_all
  with assms(2) have tw: "takeWhile is_space (ws @ X @ '')'' @ post) = ws"
    by (simp add: list_all_iff)
  from assms(1) obtain k where k: "length ws = Suc k" by (cases ws) auto
  have d: "drop (Suc k) (ws @ X @ '')'' @ post) = X @ '')'' @ post"
    using k by simp
  have "ws_split (Suc k) (ws @ X @ '')'' @ post) = Some X"
    using name_group_name [OF assms(3,5), of post] by (simp only: ws_split.simps d option.case)
  then have "ws_split (length ws) (ws @ X @ '')'' @ post) = Some X"
    by (simp only: k)
  with tw show ?thesis by (simp add: match_domain_at_def)
qed

lemma match_domain_at_start: "match_domain_at s = Some g \<Longrightarrow> starts_with ''(:domain'' s"
  by (simp add: match_domain_at_def split: if_splits)

lemma search_domain_skip:
  "(\<forall>a b. pre = a @ b \<and> b \<noteq> [] \<longrightarrow> \<not> starts_with ''(:domain'' (b @ rest)) \<Longrightarrow>
   search_domain (pre @ rest) = search_domain rest"
proof (induction pre)
  case Nil
  show ?case by simp
next
  case (Cons c pre)
  from Cons.prems have "\<not> starts_with ''(:domain'' ((c # pre) @ rest)" by blast
  then have "match_domain_at (c # pre @ rest) = None"
    using match_domain_at_start [of "c # pre @ rest"] by (cases "match_domain_at (c # pre @ rest)") auto
  moreover have "\<forall>a b. pre = a @ b \<and> b \<noteq> [] \<longrightarrow> \<not> starts_with ''(:domain'' (b @ rest)"
  proof (intro allI impI)
    fix a b assume "pre = a @ b \<and> b \<noteq> []"
    then have "c # pre = (c # a) @ b \<and> b \<noteq> []" by simp
    with Cons.prems show "\<not> starts_with ''(:domain'' (b @ rest)" by blast
  qed
  ultimately show ?case using Cons.IH by simp
qed

lemma strip_clean: "s \<noteq> [] \<Longrightarrow> \<not> is_space (hd s) \<Longrightarrow> \<not> is_space (last s) \<Longrightarrow> strip s = s"
proof -
  assume a: "s \<noteq> []" "\<not> is_space (hd s)" "\<not> is_space (last s)"
  then have 1: "dropWhile is_space s = s" by (cases s) simp_all
  from a have "dropWhile is_space (rev s) = rev s" by (cases "rev s") (auto simp: last_rev hd_rev)
  with 1 show ?thesis by (simp add: strip_def)
qed

lemma declaration_is_read:
  assumes "os_open env problem_file = Some (pre @ ''(:domain'' @ ws @ X @ '')'' @ post)"
    and "\<forall>a b. pre = a @ b \<and> b \<noteq> [] \<longrightarrow> \<not> starts_with ''(:domain'' (b @ ''(:domain'')"
    and "ws \<noteq> []" "list_all is_space ws"
    and "X \<noteq> []" "\<not> is_space (hd X)" "\<not> is_space (last X)" "CHR '')'' \<notin> set X"
  shows "read_domain_name_from_file env problem_file = Some X"
proof -
  let ?rest = "''(:domain'' @ ws @ X @ '')'' @ post"
  have "\<not> starts_with ''(:domain'' (b @ ?rest)" if "pre = a @ b" "b \<noteq> []" for a b
  proof -
    have "starts_with ''(:domain'' ((b @ ''(:domain'') @ ws @ X @ '')'' @ post) =
          starts_with ''(:domain'' (b @ ''(:domain'')"
      by (rule starts_with_append) simp
    with assms(2) that show ?thesis by simp
  qed
  then have "search_domain (pre @ ?rest) = search_domain ?rest"
    by (intro search_domain_skip) blast
  also have "\<dots> = Some X"
    using match_domain_at_declaration [OF assms(3,4,5,6,8), of post] by simp
  finally show ?thesis
    using assms(1) strip_clean [OF assms(5,6,7)]
    by (simp add: read_domain_name_from_file_def read_all_def)
qed

text \<open>
  Claim C2, as the code has it. When the name that the script reads from the problem
  file, from the leftmost text of the form of a declaration, is the non-empty name \<open>X\<close>
  and \<^verbatim>\<open>X.pddl\<close> exists in the directory of the problem file, the resolver returns the
  path of that file. Nothing is assumed about the other files, so no fallback
  overrides it.
\<close>

theorem declared_name_wins:
  assumes "read_domain_name_from_file env problem_file = Some X" and "X \<noteq> []"
    and "os_exists env (path_join (dirname problem_file) (X @ ''.pddl''))"
  shows "find_domain_file_for_problem env problem_file =
           Some (path_join (dirname problem_file) (X @ ''.pddl''))"
  using assms by (simp add: find_domain_file_for_problem_def variants_of_def)

lemma disk_declared_facts:
  "read_domain_name_from_file (disk_os disk_declared) ''/bench/grip/pb1.pddl'' = Some ''gripper''"
  "os_exists (disk_os disk_declared)
     (path_join (dirname ''/bench/grip/pb1.pddl'') (''gripper'' @ ''.pddl''))"
  "os_exists (disk_os disk_declared) ''/bench/grip/domain.pddl''"
  "path_join (dirname ''/bench/grip/pb1.pddl'') (''gripper'' @ ''.pddl'') =
     ''/bench/grip/gripper.pddl''"
  by code_simp+

text \<open>
  The problem of \<open>disk_declared\<close> declares gripper and resolves to \<^verbatim>\<open>gripper.pddl\<close>,
  although a \<^verbatim>\<open>domain.pddl\<close> lies next to it.
\<close>

theorem declared_name_wins_witness:
  "read_domain_name_from_file (disk_os disk_declared) ''/bench/grip/pb1.pddl'' = Some ''gripper'' \<and>
   os_exists (disk_os disk_declared)
     (path_join (dirname ''/bench/grip/pb1.pddl'') (''gripper'' @ ''.pddl'')) \<and>
   os_exists (disk_os disk_declared) ''/bench/grip/domain.pddl'' \<and>
   find_domain_file_for_problem (disk_os disk_declared) ''/bench/grip/pb1.pddl'' =
     Some ''/bench/grip/gripper.pddl''"
  using declared_name_wins [OF disk_declared_facts(1) _ disk_declared_facts(2)]
    disk_declared_facts
  by simp

text \<open>
  Claim C2 as stated fails: the problem file of \<open>disk_comment\<close> contains the
  declaration of gripper and \<^verbatim>\<open>gripper.pddl\<close> lies next to it, but a comment before
  the declaration mentions an older one, the script reads that name, finds no file for
  it and returns \<^verbatim>\<open>domain.pddl\<close>.
\<close>

theorem earlier_declaration_counterexample:
  "os_open (disk_os disk_comment) ''/bench/grip/pb1.pddl'' =
     Some (''; was (:domain old)'' @ [CHR 0x0A] @
           ''(define (problem p1) (:domain gripper) (:goal g))'') \<and>
   os_exists (disk_os disk_comment)
     (path_join (dirname ''/bench/grip/pb1.pddl'') ''gripper.pddl'') \<and>
   read_domain_name_from_file (disk_os disk_comment) ''/bench/grip/pb1.pddl'' = Some ''old'' \<and>
   find_domain_file_for_problem (disk_os disk_comment) ''/bench/grip/pb1.pddl'' =
     Some ''/bench/grip/domain.pddl''"
  by code_simp




text \<open>
  Claim C7, as the code has it. For every problem file, when no variant file exists in
  its directory, no pattern matches there and the scan finds nothing, the resolver
  returns what the pattern list gives in the parent directory: the first match of the
  first pattern of the list that has a match there, and nothing when no pattern has
  one. The list is the one built for the problem's own directory, \<^verbatim>\<open>domain.pddl\<close>,
  the declared name followed by \<^verbatim>\<open>.pddl\<close> when a name was read, \<^verbatim>\<open>*domain*.pddl\<close>,
  \<^verbatim>\<open>*.domain.pddl\<close> and the base name of the problem's directory followed by
  \<^verbatim>\<open>.pddl\<close>; the other spelling of the declared name is not in it.
\<close>

theorem parent_retry_patterns_only:
  assumes "domain_name = read_domain_name_from_file env problem_file"
    and "problem_dir = dirname problem_file"
    and "list_all (\<lambda>v. \<not> os_exists env (path_join problem_dir (v @ ''.pddl'')))
           (variants_of domain_name)"
    and "list_all (\<lambda>p. os_glob env (path_join problem_dir p) = [])
           (resolver_patterns domain_name problem_dir)"
    and "scan_pddls env problem_file (os_glob env (path_join problem_dir ''*.pddl'')) = None"
  shows "find_domain_file_for_problem env problem_file =
           first_match env (dirname problem_dir) (resolver_patterns domain_name problem_dir)"
  using assms
  by (simp add: find_domain_file_for_problem_def try_variants_None [symmetric]
        first_match_None [symmetric] try_patterns_first_match patterns_of_eq Let_def)

lemma disk_parent_order_facts:
  "read_domain_name_from_file (disk_os disk_parent_order) ''/c/d/pb1.pddl'' = Some ''gripper''"
  "dirname ''/c/d/pb1.pddl'' = ''/c/d''"
  "dirname ''/c/d'' = ''/c''"
  "list_all (\<lambda>v. \<not> os_exists (disk_os disk_parent_order) (path_join ''/c/d'' (v @ ''.pddl'')))
     (variants_of (Some ''gripper''))"
  "list_all (\<lambda>p. os_glob (disk_os disk_parent_order) (path_join ''/c/d'' p) = [])
     (resolver_patterns (Some ''gripper'') ''/c/d'')"
  "scan_pddls (disk_os disk_parent_order) ''/c/d/pb1.pddl''
     (os_glob (disk_os disk_parent_order) (path_join ''/c/d'' ''*.pddl'')) = None"
  "map (\<lambda>p. os_glob (disk_os disk_parent_order) (path_join ''/c'' p))
     (resolver_patterns (Some ''gripper'') ''/c/d'') =
     [[], [], [''/c/zdomain1.pddl'', ''/c/adomain2.pddl''], [], [''/c/d.pddl'']]"
  "first_match (disk_os disk_parent_order) ''/c'' (resolver_patterns (Some ''gripper'') ''/c/d'') =
     Some ''/c/zdomain1.pddl''"
  by code_simp+

text \<open>
  In \<open>disk_parent_order\<close> the third pattern is the first with a match in the parent
  directory; it has two matches and the resolver returns the one listed first, not the
  file named after the problem's directory, which the last pattern matches.
\<close>

theorem parent_retry_patterns_only_witness:
  "list_all (\<lambda>v. \<not> os_exists (disk_os disk_parent_order) (path_join ''/c/d'' (v @ ''.pddl'')))
     (variants_of (Some ''gripper'')) \<and>
   list_all (\<lambda>p. os_glob (disk_os disk_parent_order) (path_join ''/c/d'' p) = [])
     (resolver_patterns (Some ''gripper'') ''/c/d'') \<and>
   scan_pddls (disk_os disk_parent_order) ''/c/d/pb1.pddl''
     (os_glob (disk_os disk_parent_order) (path_join ''/c/d'' ''*.pddl'')) = None \<and>
   map (\<lambda>p. os_glob (disk_os disk_parent_order) (path_join ''/c'' p))
     (resolver_patterns (Some ''gripper'') ''/c/d'') =
     [[], [], [''/c/zdomain1.pddl'', ''/c/adomain2.pddl''], [], [''/c/d.pddl'']] \<and>
   find_domain_file_for_problem (disk_os disk_parent_order) ''/c/d/pb1.pddl'' =
     Some ''/c/zdomain1.pddl''"
proof -
  note f = disk_parent_order_facts
  have "find_domain_file_for_problem (disk_os disk_parent_order) ''/c/d/pb1.pddl'' =
          first_match (disk_os disk_parent_order) (dirname ''/c/d'')
            (resolver_patterns (Some ''gripper'') ''/c/d'')"
    by (rule parent_retry_patterns_only [OF f(1) [symmetric] f(2) [symmetric] f(4) f(5) f(6)])
  with f show ?thesis by simp
qed

text \<open>
  Claim C7 as stated fails: the problem of \<open>disk_parent_synonym\<close> declares blocksworld,
  nothing in its own directory resolves it, \<^verbatim>\<open>blockworld.pddl\<close> lies one level up, and
  the resolver returns nothing.
\<close>

theorem synonym_in_parent_counterexample:
  "read_domain_name_from_file (disk_os disk_parent_synonym) ''/c/d/pb1.pddl'' =
     Some ''blocksworld'' \<and>
   os_exists (disk_os disk_parent_synonym)
     (path_join (dirname (dirname ''/c/d/pb1.pddl'')) ''blockworld.pddl'') \<and>
   find_domain_file_for_problem (disk_os disk_parent_synonym) ''/c/d/pb1.pddl'' = None"
  by code_simp

text \<open>A problem without a declaration is resolved one level up by the four patterns.\<close>

lemma parent_retry_without_declaration:
  "read_domain_name_from_file (disk_os disk_parent_undeclared) ''/c/d/pb1.pddl'' = None \<and>
   resolver_patterns None ''/c/d'' =
     [''domain.pddl'', ''*domain*.pddl'', ''*.domain.pddl'', ''d.pddl''] \<and>
   find_domain_file_for_problem (disk_os disk_parent_undeclared) ''/c/d/pb1.pddl'' =
     Some ''/c/domain.pddl''"
  by code_simp

text \<open>
  A file of the other spelling one level up is found when one of the patterns matches
  it, here the pattern made from the name of the problem's directory.
\<close>

lemma synonym_in_parent_by_directory_name:
  "read_domain_name_from_file (disk_os disk_parent_dirname) ''/c/blockworld/pb1.pddl'' =
     Some ''blocksworld'' \<and>
   find_domain_file_for_problem (disk_os disk_parent_dirname) ''/c/blockworld/pb1.pddl'' =
     Some ''/c/blockworld.pddl''"
  by code_simp

text \<open>The structural scan never returns the problem file.\<close>

lemma scan_pddls_not_problem: "scan_pddls env problem_file pddls \<noteq> Some problem_file"
  by (induction pddls) (auto split: option.splits)

text \<open>
  Claim C10. The resolver can return the problem file itself: a problem file whose name
  contains \<^verbatim>\<open>domain\<close> is the first match of \<^verbatim>\<open>*domain*.pddl\<close>, and a problem file
  named after its directory is the match of the last pattern; in both examples no file
  of the declared name exists.
\<close>

theorem resolver_returns_problem_itself:
  "is_problem_file (disk_os disk_named_domain) ''/bench/blocks/mydomain-p01.pddl'' \<and>
   find_domain_file_for_problem (disk_os disk_named_domain) ''/bench/blocks/mydomain-p01.pddl'' =
     Some ''/bench/blocks/mydomain-p01.pddl'' \<and>
   is_problem_file (disk_os disk_named_dir) ''/bench/p01/p01.pddl'' \<and>
   find_domain_file_for_problem (disk_os disk_named_dir) ''/bench/p01/p01.pddl'' =
     Some ''/bench/p01/p01.pddl''"
  by code_simp

section \<open>Properties of the corpus walker\<close>

lemma starts_with_iff: "starts_with p s \<longleftrightarrow> (\<exists>b. s = p @ b)"
  by (induction p s rule: starts_with.induct) auto

lemma contains_iff: "contains m s \<longleftrightarrow> occurs_in m s"
proof (induction s)
  case Nil
  then show ?case by (auto simp: occurs_in_def)
next
  case (Cons c cs)
  have "occurs_in m (c # cs) \<longleftrightarrow> (\<exists>b. c # cs = m @ b) \<or> occurs_in m cs"
    unfolding occurs_in_def by (auto simp: Cons_eq_append_conv)
  with Cons show ?case by (simp add: starts_with_iff)
qed

lemma contains_left: "contains m a \<Longrightarrow> contains m (a @ b)"
proof -
  assume "contains m a"
  then obtain u v where "a = u @ m @ v" by (auto simp: contains_iff occurs_in_def)
  then have "a @ b = u @ m @ (v @ b)" by simp
  then show ?thesis unfolding contains_iff occurs_in_def by blast
qed

text \<open>
  Claim C8. A path is classified as a problem file exactly when the bounded read of
  2000 characters succeeds and what it returns contains the goal marker, the definition
  marker and the word problem; a path whose bounded read raises is classified as not a
  problem file. The rest of the file plays no part.
\<close>

theorem is_problem_file_spec:
  "is_problem_file env path =
     (case os_read env path 2000 of
        None \<Rightarrow> False
      | Some text \<Rightarrow>
          occurs_in ''(:goal'' (take 2000 text) \<and>
          occurs_in ''(define'' (take 2000 text) \<and>
          occurs_in ''problem'' (take 2000 text))"
  by (simp add: is_problem_file_def read_prefix_def contains_iff split: option.splits)

text \<open>Markers that lie beyond the first 2000 characters do not count.\<close>

lemma contains_blank: "m \<noteq> [] \<Longrightarrow> hd m \<noteq> c \<Longrightarrow> \<not> contains m (replicate n c)"
  by (induction n) (auto simp: neq_Nil_conv)

lemma markers_beyond_prefix:
  "os_read env path 2000 = Some (replicate 2000 (CHR '' '') @ tail) \<Longrightarrow>
   \<not> is_problem_file env path"
  by (simp add: is_problem_file_def read_prefix_def contains_blank)

text \<open>
  A file whose complete read raises is still classified by its beginning: the file of
  \<open>disk_broken\<close> is a problem file.
\<close>

lemma broken_markers:
  "contains ''(:goal'' ''(define (problem p1) (:domain gripper) (:goal g))''"
  "contains ''(define'' ''(define (problem p1) (:domain gripper) (:goal g))''"
  "contains ''problem'' ''(define (problem p1) (:domain gripper) (:goal g))''"
  by code_simp+

lemma broken_file_classified:
  "os_open (disk_os disk_broken) ''/bench/grip/pb1.pddl'' = None \<and>
   is_problem_file (disk_os disk_broken) ''/bench/grip/pb1.pddl''"
proof -
  have r: "os_read (disk_os disk_broken) ''/bench/grip/pb1.pddl'' 2000 =
      Some (take 2000 (''(define (problem p1) (:domain gripper) (:goal g))'' @
                       replicate 20000 (CHR '' '')))"
    by (simp add: disk_os_def disk_read_def disk_broken_def)
  have o: "os_open (disk_os disk_broken) ''/bench/grip/pb1.pddl'' = None"
    by (simp add: disk_os_def disk_open_def disk_broken_def)
  show ?thesis
    unfolding is_problem_file_def read_prefix_def r
    using o broken_markers by (simp add: contains_left)
qed

text \<open>When the step for one problem raises: exactly for an unresolved blocksworld problem.\<close>

lemma resolve_step_raises_iff:
  "(\<exists>e. resolve_step env problem_file = Inl e) \<longleftrightarrow>
     (\<not> truthy (find_domain_file_for_problem env problem_file) \<and>
      read_domain_name_from_file env problem_file = Some ''blocksworld'')"
  by (simp add: resolve_step_def Let_def)

lemma resolve_step_skips:
  "\<not> truthy (find_domain_file_for_problem env problem_file) \<Longrightarrow>
   read_domain_name_from_file env problem_file \<noteq> Some ''blocksworld'' \<Longrightarrow>
   \<exists>diagnostic. resolve_step env problem_file = Inr (Skipped diagnostic)"
  by (simp add: resolve_step_def Let_def)

lemma disk_unresolved_facts:
  "find_problem_files (disk_os disk_unresolved) ''/bench/blocks'' =
     [''/bench/blocks/pb1.pddl'', ''/bench/blocks/pb2.pddl'']"
  "find_domain_file_for_problem (disk_os disk_unresolved) ''/bench/blocks/pb1.pddl'' = None"
  "walk_problems (disk_os disk_unresolved) [''/bench/blocks/pb2.pddl''] =
     Inr [(''/bench/blocks/pb2.pddl'',
           Skipped [''  Warning: Could not find domain file for pb2.pddl'',
                    ''  Problem requires domain: gripper''])]"
  by code_simp+

text \<open>
  Claim C1 fails on the code. In \<open>disk_unresolved\<close> neither problem has a domain file.
  The walk of the directory ends with \<^verbatim>\<open>NameError\<close> at the first problem, which
  declares blocksworld, and never reaches the second one, which alone would be skipped
  with its two diagnostic lines (\<open>disk_unresolved_facts\<close>).
\<close>

theorem walk_aborts_on_unresolved_blocksworld:
  "walk_domain_dir (disk_os disk_unresolved) ''/bench/blocks'' 10 =
     Inl (NameError ''problem_dir'')"
  by code_simp

text \<open>
  What the sort does. When every file name has a digit the result is the stable sort by
  the number of the first run of digits; when none has one it is the stable sort by the
  file name in code point order; when the directory has both kinds the sort raises
  \<^verbatim>\<open>TypeError\<close>.
\<close>

lemma key_of_numbered: "has_number p \<Longrightarrow> problem_sort_key p = KInt (number_key p)"
  by (simp add: problem_sort_key_def has_number_def number_key_def Let_def)

lemma key_of_unnumbered: "\<not> has_number p \<Longrightarrow> problem_sort_key p = KStr (basename p)"
  by (simp add: problem_sort_key_def has_number_def Let_def)

lemma insert_by_key_numbered:
  "has_number x \<Longrightarrow> list_all has_number ys \<Longrightarrow>
   insert_by_key x ys = Inr (insort_key number_key x ys)"
  by (induction ys) (auto simp: key_of_numbered)

lemma sort_problems_numbered:
  "list_all has_number xs \<Longrightarrow> sort_problems xs = Inr (sort_key number_key xs)"
proof (induction xs)
  case Nil
  show ?case by simp
next
  case (Cons x xs)
  then have "list_all has_number (sort_key number_key xs)"
    by (simp add: list_all_iff)
  with Cons show ?case by (simp add: insert_by_key_numbered sort_key_def)
qed

lemma insert_by_key_set: "insert_by_key x ys = Inr zs \<Longrightarrow> set zs = insert x (set ys)"
proof (induction ys arbitrary: zs)
  case Nil
  then show ?case by auto
next
  case (Cons y ys)
  show ?case
  proof (cases "key_lt (problem_sort_key y) (problem_sort_key x)")
    case (Inl e)
    with Cons.prems show ?thesis by simp
  next
    case (Inr b)
    show ?thesis
    proof (cases b)
      case False
      with Inr Cons.prems show ?thesis by auto
    next
      case True
      with Inr Cons.prems obtain zs' where z: "insert_by_key x ys = Inr zs'" "zs = y # zs'"
        by (cases "insert_by_key x ys") auto
      from Cons.IH [OF z(1)] z(2) show ?thesis by auto
    qed
  qed
qed

lemma insert_by_key_same_kind:
  "insert_by_key x (y # ys) = Inr zs \<Longrightarrow> has_number x = has_number y"
  by (cases "has_number x"; cases "has_number y")
     (simp_all add: key_of_numbered key_of_unnumbered)

lemma sort_problems_Inr:
  "sort_problems xs = Inr ys \<Longrightarrow>
   set ys = set xs \<and> (list_all has_number xs \<or> list_all (\<lambda>p. \<not> has_number p) xs)"
proof (induction xs arbitrary: ys)
  case Nil
  then show ?case by simp
next
  case (Cons x xs)
  from Cons.prems obtain ys' where s: "sort_problems xs = Inr ys'" and i: "insert_by_key x ys' = Inr ys"
    by (auto split: sum.splits)
  from Cons.IH [OF s] have set: "set ys' = set xs"
    and hom: "list_all has_number xs \<or> list_all (\<lambda>p. \<not> has_number p) xs" by simp_all
  show ?case
  proof (cases ys')
    case Nil
    with set i show ?thesis by auto
  next
    case (Cons y ys'')
    from i have "insert_by_key x (y # ys'') = Inr ys" unfolding Cons .
    then have k: "has_number x = has_number y" by (rule insert_by_key_same_kind)
    from Cons set have "y \<in> set xs" by auto
    with hom k have "list_all has_number (x # xs) \<or> list_all (\<lambda>p. \<not> has_number p) (x # xs)"
      by (auto simp: list_all_iff)
    with insert_by_key_set [OF i] set show ?thesis by simp
  qed
qed

lemma key_lt_error: "key_lt a b = Inl e \<Longrightarrow> e = TypeError"
  by (cases a; cases b) simp_all

lemma insert_by_key_error: "insert_by_key x ys = Inl e \<Longrightarrow> e = TypeError"
proof (induction ys)
  case Nil
  then show ?case by simp
next
  case (Cons y ys)
  show ?case
  proof (cases "key_lt (problem_sort_key y) (problem_sort_key x)")
    case (Inl e')
    with Cons.prems have "e' = e" by simp
    with Inl show ?thesis by (simp add: key_lt_error)
  next
    case (Inr b)
    with Cons show ?thesis by (cases b) (auto split: sum.splits)
  qed
qed

lemma sort_problems_error: "sort_problems xs = Inl e \<Longrightarrow> e = TypeError"
  by (induction xs) (auto split: sum.splits dest: insert_by_key_error)

lemma sort_problems_mixed:
  assumes "x \<in> set xs" "has_number x" "y \<in> set xs" "\<not> has_number y"
  shows "sort_problems xs = Inl TypeError"
proof (cases "sort_problems xs")
  case (Inl e)
  then show ?thesis by (simp add: sort_problems_error)
next
  case (Inr ys)
  from sort_problems_Inr [OF Inr] assms show ?thesis by (auto simp: list_all_iff)
qed

lemma str_lt_less: "str_lt a b \<longleftrightarrow> a < b"
  by (induction a b rule: str_lt.induct) (auto simp: less_char_def)

lemma insert_by_key_unnumbered:
  "\<not> has_number x \<Longrightarrow> list_all (\<lambda>p. \<not> has_number p) ys \<Longrightarrow>
   insert_by_key x ys = Inr (insort_key basename x ys)"
proof (induction ys)
  case Nil
  show ?case by simp
next
  case (Cons y ys)
  show ?case
  proof (cases "basename y < basename x")
    case True
    then have "\<not> basename x \<le> basename y" by simp
    with True Cons show ?thesis by (simp add: key_of_unnumbered str_lt_less)
  next
    case False
    then have "basename x \<le> basename y" by simp
    with False Cons show ?thesis by (simp add: key_of_unnumbered str_lt_less)
  qed
qed

lemma sort_problems_unnumbered:
  "list_all (\<lambda>p. \<not> has_number p) xs \<Longrightarrow> sort_problems xs = Inr (sort_key basename xs)"
proof (induction xs)
  case Nil
  show ?case by simp
next
  case (Cons x xs)
  then have "list_all (\<lambda>p. \<not> has_number p) (sort_key basename xs)"
    by (simp add: list_all_iff)
  with Cons show ?case by (simp add: insert_by_key_unnumbered sort_key_def)
qed

text \<open>The ordering of the example of the specification.\<close>

lemma sort_problems_example:
  "sort_problems [''/d/pb2.pddl'', ''/d/pb10.pddl'', ''/d/pb1.pddl''] =
     Inr [''/d/pb1.pddl'', ''/d/pb2.pddl'', ''/d/pb10.pddl'']"
  by code_simp

text \<open>
  Claim C4 fails on the code. The directory of \<open>disk_mixed\<close> holds the problem files
  \<^verbatim>\<open>pb.pddl\<close> and \<^verbatim>\<open>pb1.pddl\<close>; their keys are a string and an integer, the
  sort raises \<^verbatim>\<open>TypeError\<close>, and no problem of the directory is visited.
\<close>

theorem mixed_names_abort_sort:
  "find_problem_files (disk_os disk_mixed) ''/bench/grid'' =
     [''/bench/grid/pb.pddl'', ''/bench/grid/pb1.pddl''] \<and>
   ordered_problems (disk_os disk_mixed) ''/bench/grid'' 10 = Inl TypeError \<and>
   walk_domain_dir (disk_os disk_mixed) ''/bench/grid'' 10 = Inl TypeError"
  by code_simp

section \<open>Properties of the runner\<close>

text \<open>Every record of the runner has one shape; its last two values fall in three classes.\<close>

lemma run_benchmark_shape:
  "\<exists>succ rt en pl.
     run_benchmark env d p s h t =
       [(''domain'', VStr (remove_pddl (basename d))),
        (''problem'', VStr (remove_pddl (basename p))),
        (''search'', VStr (str_or s ''breadth_first_search'')),
        (''heuristic'', VStr (str_or h ''None'')),
        (''success'', VBool succ), (''runtime'', VFloat rt),
        (''expanded_nodes'', en), (''plan_length'', pl)] \<and>
     (rt = end_time env - start_time env \<or> rt = handler_time env - start_time env) \<and>
     ((\<exists>n m. en = VInt n \<and> pl = VInt m) \<or>
      (\<not> succ \<and> en = VStr ''timeout'' \<and> pl = VStr ''timeout'') \<or>
      (\<not> succ \<and> (\<exists>e. en = VStr (''error: '' @ e) \<and> pl = VStr (''error: '' @ e))))"
proof (cases "subprocess_run env ([''python'', ''-m'', ''pyperplan''] @
                (if truthy s then [''--search'', the s] else []) @
                (if truthy h then [''--heuristic'', the h] else []) @ [d, p]) t")
  case TimeoutExpired
  then show ?thesis by (auto simp add: run_benchmark_def Let_def)
next
  case (Raised e)
  then show ?thesis by (auto simp add: run_benchmark_def Let_def)
next
  case c: (Completed out err)
  show ?thesis
  proof (cases "late_exception env")
    case (Some e)
    with c show ?thesis by (auto simp add: run_benchmark_def Let_def)
  next
    case l: None
    show ?thesis
    proof (cases "search_nodes out")
      case n: None
      show ?thesis
      proof (cases "search_length out")
        case None
        with n c l show ?thesis by (simp add: run_benchmark_def Let_def)
      next
        case (Some a)
        with n c l show ?thesis by (simp add: run_benchmark_def Let_def)
      qed
    next
      case n: (Some b)
      show ?thesis
      proof (cases "search_length out")
        case None
        with n c l show ?thesis by (simp add: run_benchmark_def Let_def)
      next
        case (Some a)
        with n c l show ?thesis by (simp add: run_benchmark_def Let_def)
      qed
    qed
  qed
qed





text \<open>
  Claim C9. The keys of every record of the runner are the eight field names in their
  order, on every path through the function. Hence for every list of calls of the
  runner, saving the records raises nothing and writes a header and one row of eight
  cells for each call; nothing is written when there is no call.
\<close>

theorem run_benchmark_fields:
  "map fst (run_benchmark env d p s h t) = run_fields \<and>
   (case save_results (map (\<lambda>(env, d, p, s, h, t). run_benchmark env d p s h t) calls) of
      None \<Rightarrow> calls = []
    | Some (rows, outcome) \<Rightarrow>
        outcome = None \<and> length rows = Suc (length calls) \<and>
        list_all (\<lambda>row. length row = 8) rows)"
proof -
  have keys: "map fst (run_benchmark env d p s h t) = run_fields" for env d p s h t
    using run_benchmark_shape [of env d p s h t] by (auto simp: run_fields_def)
  have row: "\<exists>row. dict_to_list run_fields (run_benchmark env d p s h t) = Inr row \<and> length row = 8"
    for env d p s h t
    by (simp add: dict_to_list_def keys list_ex_iff) (simp add: run_fields_def)
  have rows: "\<exists>rows. writerows run_fields (map (\<lambda>(env, d, p, s, h, t). run_benchmark env d p s h t) cs) = (rows, None)
                \<and> length rows = length cs \<and> list_all (\<lambda>row. length row = 8) rows" for cs
  proof (induction cs)
    case Nil
    show ?case by simp
  next
    case (Cons c cs)
    obtain env d p s h t where c: "c = (env, d, p, s, h, t)" by (cases c)
    from row [of env d p s h t] Cons show ?case by (auto simp: c)
  qed
  show ?thesis
  proof (cases calls)
    case Nil
    then show ?thesis by (simp add: keys save_results_def)
  next
    case (Cons c cs)
    obtain env' d' p' s' h' t' where c: "c = (env', d', p', s', h', t')" by (cases c)
    from rows [of calls] obtain rs where
      rs: "writerows run_fields (map (\<lambda>(env, d, p, s, h, t). run_benchmark env d p s h t) calls) = (rs, None)"
      "length rs = length calls" "list_all (\<lambda>row. length row = 8) rs" by blast
    have "save_results (map (\<lambda>(env, d, p, s, h, t). run_benchmark env d p s h t) calls) =
            Some (map VStr run_fields # rs, None)"
      using rs(1) by (simp add: save_results_def Cons c keys)
    with rs(2,3) show ?thesis by (simp add: keys) (simp add: run_fields_def)
  qed
qed

section \<open>Properties of the result sink\<close>

lemma dict_to_list_eq:
  "dict_to_list fieldnames r =
     (if set (map fst r) \<subseteq> set fieldnames then Inr (row_of fieldnames r) else Inl ValueError)"
  by (auto simp: dict_to_list_def row_of_def list_ex_iff)

lemma writerows_all_fit:
  "list_all (\<lambda>r. set (map fst r) \<subseteq> set fieldnames) rs \<Longrightarrow>
   writerows fieldnames rs = (map (row_of fieldnames) rs, None)"
  by (induction rs) (simp_all add: dict_to_list_eq)

lemma writerows_first_misfit:
  "list_all (\<lambda>r. set (map fst r) \<subseteq> set fieldnames) good \<Longrightarrow>
   \<not> set (map fst bad) \<subseteq> set fieldnames \<Longrightarrow>
   writerows fieldnames (good @ bad # rest) = (map (row_of fieldnames) good, Some ValueError)"
  by (induction good) (simp_all add: dict_to_list_eq)

text \<open>
  Claim C6, as the code has it. The columns are the keys of the first record, in their
  order. When every record has only keys among them, all records are written, a row
  each, with the empty string in the columns a record lacks. When some record has a key
  that is not among them, the rows of the records before the first such record are
  written and \<^verbatim>\<open>ValueError\<close> ends the writing.
\<close>

theorem save_results_schema:
  assumes "results = first # rest"
  shows "(list_all (\<lambda>r. set (map fst r) \<subseteq> set (map fst first)) results \<longrightarrow>
            save_results results =
              Some (map VStr (map fst first) # map (row_of (map fst first)) results, None)) \<and>
         (\<forall>good bad rest'.
            results = good @ bad # rest' \<and>
            list_all (\<lambda>r. set (map fst r) \<subseteq> set (map fst first)) good \<and>
            \<not> set (map fst bad) \<subseteq> set (map fst first) \<longrightarrow>
            save_results results =
              Some (map VStr (map fst first) # map (row_of (map fst first)) good,
                    Some ValueError))"
proof (intro conjI impI allI)
  assume "list_all (\<lambda>r. set (map fst r) \<subseteq> set (map fst first)) results"
  then have "writerows (map fst first) results = (map (row_of (map fst first)) results, None)"
    by (rule writerows_all_fit)
  then have w: "writerows (map fst first) (first # rest) =
      (map (row_of (map fst first)) (first # rest), None)"
    by (simp only: assms)
  show "save_results results =
      Some (map VStr (map fst first) # map (row_of (map fst first)) results, None)"
    using w by (simp add: save_results_def assms Let_def del: writerows.simps)
next
  fix good bad rest'
  assume a: "results = good @ bad # rest' \<and>
            list_all (\<lambda>r. set (map fst r) \<subseteq> set (map fst first)) good \<and>
            \<not> set (map fst bad) \<subseteq> set (map fst first)"
  then have "writerows (map fst first) (good @ bad # rest') =
      (map (row_of (map fst first)) good, Some ValueError)"
    by (intro writerows_first_misfit) simp_all
  with a have "writerows (map fst first) results =
      (map (row_of (map fst first)) good, Some ValueError)"
    by simp
  then have w: "writerows (map fst first) (first # rest) =
      (map (row_of (map fst first)) good, Some ValueError)"
    by (simp only: assms)
  show "save_results results =
      Some (map VStr (map fst first) # map (row_of (map fst first)) good, Some ValueError)"
    using w by (simp add: save_results_def assms Let_def del: writerows.simps)
qed

text \<open>
  A record without the last field is written, and a later record with one field more
  stops the writing after two rows.
\<close>

theorem save_results_schema_witness:
  "list_all (\<lambda>r. set (map fst r) \<subseteq> set (map fst rec_full)) [rec_full, rec_short] \<and>
   \<not> set (map fst rec_extra) \<subseteq> set (map fst rec_full) \<and>
   save_results [rec_full, rec_short] =
     Some ([[VStr ''domain'', VStr ''problem'', VStr ''success'', VStr ''plan_length''],
            [VStr ''grid'', VStr ''pb1'', VBool True, VInt 7],
            [VStr ''grid'', VStr ''pb2'', VBool False, VStr []]], None) \<and>
   save_results [rec_full, rec_short, rec_extra, rec_full] =
     Some ([[VStr ''domain'', VStr ''problem'', VStr ''success'', VStr ''plan_length''],
            [VStr ''grid'', VStr ''pb1'', VBool True, VInt 7],
            [VStr ''grid'', VStr ''pb2'', VBool False, VStr []]], Some ValueError)"
proof -
  have fit: "list_all (\<lambda>r. set (map fst r) \<subseteq> set (map fst rec_full)) [rec_full, rec_short]"
    by (simp add: rec_full_def rec_short_def)
  have misfit: "\<not> set (map fst rec_extra) \<subseteq> set (map fst rec_full)"
    by (simp add: rec_full_def rec_extra_def)
  have rows: "map (row_of (map fst rec_full)) [rec_full, rec_short] =
      [[VStr ''grid'', VStr ''pb1'', VBool True, VInt 7],
       [VStr ''grid'', VStr ''pb2'', VBool False, VStr []]]"
    by (simp add: row_of_def rec_full_def rec_short_def)
  have hdr: "map VStr (map fst rec_full) =
      [VStr ''domain'', VStr ''problem'', VStr ''success'', VStr ''plan_length'']"
    by (simp add: rec_full_def)
  from save_results_schema [of "[rec_full, rec_short]" rec_full "[rec_short]"] fit
  have one: "save_results [rec_full, rec_short] =
      Some (map VStr (map fst rec_full) # map (row_of (map fst rec_full)) [rec_full, rec_short], None)"
    by blast
  from save_results_schema [of "[rec_full, rec_short, rec_extra, rec_full]" rec_full
      "[rec_short, rec_extra, rec_full]"]
  have "[rec_full, rec_short, rec_extra, rec_full] = [rec_full, rec_short] @ rec_extra # [rec_full] \<and>
        list_all (\<lambda>r. set (map fst r) \<subseteq> set (map fst rec_full)) [rec_full, rec_short] \<and>
        \<not> set (map fst rec_extra) \<subseteq> set (map fst rec_full) \<longrightarrow>
        save_results [rec_full, rec_short, rec_extra, rec_full] =
          Some (map VStr (map fst rec_full) # map (row_of (map fst rec_full)) [rec_full, rec_short],
                Some ValueError)"
    by blast
  with fit misfit have two: "save_results [rec_full, rec_short, rec_extra, rec_full] =
          Some (map VStr (map fst rec_full) # map (row_of (map fst rec_full)) [rec_full, rec_short],
                Some ValueError)"
    by simp
  from fit misfit one two show ?thesis unfolding rows hdr by blast
qed

text \<open>
  Claim C6 as stated fails: the second record lacks the field \<^verbatim>\<open>plan_length\<close> of the
  first, and both are written, the second with an empty cell, without any exception.
\<close>

theorem missing_field_counterexample:
  "map fst rec_full = [''domain'', ''problem'', ''success'', ''plan_length''] \<and>
   map fst rec_short = [''domain'', ''problem'', ''success''] \<and>
   save_results [rec_full, rec_short] =
     Some ([[VStr ''domain'', VStr ''problem'', VStr ''success'', VStr ''plan_length''],
            [VStr ''grid'', VStr ''pb1'', VBool True, VInt 7],
            [VStr ''grid'', VStr ''pb2'', VBool False, VStr []]], None)"
  by code_simp

end
